theory Spec2Isabelle
  imports Complex_Main "HOL-Library.Word"
begin

section \<open>JavaScript values\<close>

text \<open>
  The proxy (\<^verbatim>\<open>server.js\<close>) is dynamically typed: every field of a request body and of an
  upstream reply is an arbitrary JavaScript value. A Number is an IEEE double; the program
  never does arithmetic on a Number it receives, it only tests it for truthiness and compares
  it with the literal 256, so a finite Number is kept as the exact rational it denotes
  (every double is one) next to the four special values.
\<close>

datatype jsnum = NaN | PosInf | NegInf | NegZero | Fin rat

datatype jsval =
    JUndefined
  | JNull
  | JBool bool
  | JNum jsnum
  | JStr string
  | JArr "jsval list"
  | JObj "(string \<times> jsval) list"
  | JFunction string

text \<open>What reaches the wire after \<^verbatim>\<open>JSON.stringify\<close>: a JSON document.\<close>

datatype json =
    JsonNull
  | JsonBool bool
  | JsonNum rat
  | JsonStr string
  | JsonArr "json list"
  | JsonObj "(string \<times> json) list"

type_synonym chunk = "8 word list"

text \<open>
  A Node.js readable stream (the \<^verbatim>\<open>http.IncomingMessage\<close> axios hands over when
  \<^verbatim>\<open>responseType\<close> is \<^verbatim>\<open>'stream'\<close>): the chunks it will deliver, and whether it then
  fails instead of ending.
\<close>

record readable =
  chunks :: "chunk list"
  errored :: bool

text \<open>\<^verbatim>\<open>response.data\<close>: a parsed body, or the stream.\<close>

datatype axios_data = Parsed jsval | Stream readable

record axios_response =
  status :: nat
  data :: axios_data

text \<open>
  A thrown value: an \<^verbatim>\<open>Error\<close> with its \<^verbatim>\<open>message\<close>; an axios error also carries
  \<^verbatim>\<open>response\<close> when the upstream answered.
\<close>

record js_error =
  message :: jsval
  response :: "axios_response option"

definition TypeError :: "string \<Rightarrow> js_error" where
  "TypeError msg = \<lparr>message = JStr msg, response = None\<rparr>"

definition and_then :: "'e + 'a \<Rightarrow> ('a \<Rightarrow> 'e + 'b) \<Rightarrow> 'e + 'b" where
  "and_then r f = (case r of Inl e \<Rightarrow> Inl e | Inr x \<Rightarrow> f x)"

fun mapE :: "('a \<Rightarrow> 'e + 'b) \<Rightarrow> 'a list \<Rightarrow> 'e + 'b list" where
  "mapE f [] = Inr []"
| "mapE f (x # xs) =
     (case f x of
        Inl e \<Rightarrow> Inl e
      | Inr y \<Rightarrow> (case mapE f xs of Inl e \<Rightarrow> Inl e | Inr ys \<Rightarrow> Inr (y # ys)))"

section \<open>The language's built-in operations\<close>

text \<open>
  What the runtime supplies and the repository does not define: the conversions between
  strings and Numbers (they round to doubles), the clock, and the HTTP exchange behind
  \<^verbatim>\<open>axios.post\<close>. \<^verbatim>\<open>Date_now h i\<close> is what the \<open>i\<close>-th call site of \<^verbatim>\<open>Date.now()\<close> reads.

  The exchange either is fulfilled with the upstream's reply or fails with an error message
  and, when the upstream answered, its reply. A reply has its status and its body, the body
  both as the byte stream it arrives as and as the value axios makes of it when it reads it
  whole.
\<close>

record axios_call =
  url :: string
  payload :: jsval
  call_headers :: "(string \<times> string) list"
  responseType :: string

datatype axios_result = Resolved axios_response | Rejected js_error

record upstream_reply =
  reply_status :: nat
  reply_stream :: readable
  reply_parsed :: jsval

datatype axios_outcome = Fulfilled upstream_reply | Failed jsval "upstream_reply option"

record host =
  StringToNumber :: "string \<Rightarrow> jsnum"
  NumberToString :: "jsnum \<Rightarrow> string"
  Date_now :: "nat \<Rightarrow> nat"
  axios :: "axios_call \<Rightarrow> axios_outcome"

text \<open>
  \<^verbatim>\<open>axios.post(url, data, config)\<close>. What \<^verbatim>\<open>response.data\<close> is follows the
  \<^verbatim>\<open>responseType\<close> of the call: the stream itself for \<^verbatim>\<open>'stream'\<close>, the body read whole
  otherwise; the same holds for the \<^verbatim>\<open>response\<close> an error carries.
\<close>

definition as_response :: "axios_call \<Rightarrow> upstream_reply \<Rightarrow> axios_response" where
  "as_response call rp =
     \<lparr>status = reply_status rp,
      data = (if responseType call = ''stream'' then Stream (reply_stream rp)
              else Parsed (reply_parsed rp))\<rparr>"

definition axios_post :: "host \<Rightarrow> axios_call \<Rightarrow> axios_result" where
  "axios_post h call =
     (case axios h call of
        Fulfilled rp \<Rightarrow> Resolved (as_response call rp)
      | Failed msg rp \<Rightarrow> Rejected \<lparr>message = msg, response = map_option (as_response call) rp\<rparr>)"

text \<open>ToBoolean.\<close>

fun truthy :: "jsval \<Rightarrow> bool" where
  "truthy JUndefined = False"
| "truthy JNull = False"
| "truthy (JBool b) = b"
| "truthy (JNum n) = (n \<noteq> NaN \<and> n \<noteq> NegZero \<and> n \<noteq> Fin 0)"
| "truthy (JStr s) = (s \<noteq> [])"
| "truthy (JArr xs) = True"
| "truthy (JObj ps) = True"
| "truthy (JFunction f) = True"

text \<open>\<^verbatim>\<open>a || b\<close> returns one of its operands.\<close>

definition js_or :: "jsval \<Rightarrow> jsval \<Rightarrow> jsval" where
  "js_or a b = (if truthy a then a else b)"

text \<open>Number::lessThan; \<open>None\<close> is its \<^verbatim>\<open>undefined\<close> result (a NaN operand).\<close>

fun mathematical_value :: "jsnum \<Rightarrow> rat" where
  "mathematical_value (Fin r) = r"
| "mathematical_value _ = 0"

fun Number_lessThan :: "jsnum \<Rightarrow> jsnum \<Rightarrow> bool option" where
  "Number_lessThan NaN y = None"
| "Number_lessThan x NaN = None"
| "Number_lessThan PosInf y = Some False"
| "Number_lessThan x PosInf = Some True"
| "Number_lessThan x NegInf = Some False"
| "Number_lessThan NegInf y = Some True"
| "Number_lessThan x y = Some (mathematical_value x < mathematical_value y)"

text \<open>
  ToString, with ToPrimitive. An array joins its elements with commas, \<^verbatim>\<open>null\<close> and
  \<^verbatim>\<open>undefined\<close> elements as empty strings. An ordinary object is converted by its
  \<^verbatim>\<open>toString\<close> method: the inherited one gives \<^verbatim>\<open>[object Object]\<close>; an own property of
  that name hides it, and in a value made by \<^verbatim>\<open>JSON.parse\<close> an own property is never
  callable, so the conversion throws (the inherited \<^verbatim>\<open>valueOf\<close> returns the object itself
  and an own one is not callable either, so \<^verbatim>\<open>valueOf\<close> never yields the primitive).
\<close>

definition cannot_convert :: js_error where
  "cannot_convert = TypeError ''Cannot convert object to primitive value''"

fun ToString :: "host \<Rightarrow> jsval \<Rightarrow> js_error + string"
  and join_elements :: "host \<Rightarrow> jsval list \<Rightarrow> js_error + string"
  and element_string :: "host \<Rightarrow> jsval \<Rightarrow> js_error + string" where
  "ToString h JUndefined = Inr ''undefined''"
| "ToString h JNull = Inr ''null''"
| "ToString h (JBool b) = Inr (if b then ''true'' else ''false'')"
| "ToString h (JNum n) = Inr (NumberToString h n)"
| "ToString h (JStr s) = Inr s"
| "ToString h (JArr xs) = join_elements h xs"
| "ToString h (JObj ps) =
     (case map_of ps ''toString'' of
        None \<Rightarrow> Inr ''[object Object]''
      | Some v \<Rightarrow> Inl cannot_convert)"
| "ToString h (JFunction f) = Inr (''function '' @ f @ ''() { [native code] }'')"
| "join_elements h [] = Inr []"
| "join_elements h [x] = element_string h x"
| "join_elements h (x # y # ys) =
     (case element_string h x of
        Inl e \<Rightarrow> Inl e
      | Inr s \<Rightarrow> (case join_elements h (y # ys) of
                    Inl e \<Rightarrow> Inl e
                  | Inr t \<Rightarrow> Inr (s @ '','' @ t)))"
| "element_string h JUndefined = Inr []"
| "element_string h JNull = Inr []"
| "element_string h (JBool b) = ToString h (JBool b)"
| "element_string h (JNum n) = ToString h (JNum n)"
| "element_string h (JStr s) = ToString h (JStr s)"
| "element_string h (JArr xs) = ToString h (JArr xs)"
| "element_string h (JObj ps) = ToString h (JObj ps)"
| "element_string h (JFunction f) = ToString h (JFunction f)"

text \<open>
  ToNumber; an object is first turned into a primitive, which is its string, and that
  conversion throws where ToString does.
\<close>

fun ToNumber :: "host \<Rightarrow> jsval \<Rightarrow> js_error + jsnum" where
  "ToNumber h JUndefined = Inr NaN"
| "ToNumber h JNull = Inr (Fin 0)"
| "ToNumber h (JBool b) = Inr (if b then Fin 1 else Fin 0)"
| "ToNumber h (JNum n) = Inr n"
| "ToNumber h (JStr s) = Inr (StringToNumber h s)"
| "ToNumber h v = and_then (ToString h v) (\<lambda>s. Inr (StringToNumber h s))"

text \<open>
  \<^verbatim>\<open>v > n\<close> for a Number \<open>n\<close>: \<open>n\<close> is compared with ToNumber of \<open>v\<close>; an undefined
  comparison is \<^verbatim>\<open>false\<close>.
\<close>

definition js_gt :: "host \<Rightarrow> jsval \<Rightarrow> jsnum \<Rightarrow> js_error + bool" where
  "js_gt h v n = and_then (ToNumber h v) (\<lambda>m. Inr (Number_lessThan n m = Some True))"

section \<open>Property access\<close>

text \<open>
  An object literal and an object made by \<^verbatim>\<open>JSON.parse\<close> are ordinary objects: a property
  that is not their own is looked up on \<^verbatim>\<open>Object.prototype\<close>, whose property names are these
  twelve. Its methods are functions; \<^verbatim>\<open>__proto__\<close> reads the prototype itself, an object
  with no enumerable property.
\<close>

definition Object_prototype :: "(string \<times> jsval) list" where
  "Object_prototype =
    [(''constructor'', JFunction ''Object''),
     (''__defineGetter__'', JFunction ''__defineGetter__''),
     (''__defineSetter__'', JFunction ''__defineSetter__''),
     (''hasOwnProperty'', JFunction ''hasOwnProperty''),
     (''__lookupGetter__'', JFunction ''__lookupGetter__''),
     (''__lookupSetter__'', JFunction ''__lookupSetter__''),
     (''isPrototypeOf'', JFunction ''isPrototypeOf''),
     (''propertyIsEnumerable'', JFunction ''propertyIsEnumerable''),
     (''toString'', JFunction ''toString''),
     (''valueOf'', JFunction ''valueOf''),
     (''__proto__'', JObj []),
     (''toLocaleString'', JFunction ''toLocaleString'')]"

definition get_property :: "(string \<times> jsval) list \<Rightarrow> string \<Rightarrow> jsval" where
  "get_property ps k =
     (case map_of ps k of
        Some v \<Rightarrow> v
      | None \<Rightarrow> (case map_of Object_prototype k of Some v \<Rightarrow> v | None \<Rightarrow> JUndefined))"

text \<open>
  \<^verbatim>\<open>v.k\<close> for the fixed names the handler reads (\<^verbatim>\<open>model\<close>, \<^verbatim>\<open>id\<close>, \<^verbatim>\<open>choices\<close>,
  \<^verbatim>\<open>message\<close>, ...). Reading from \<^verbatim>\<open>undefined\<close> or \<^verbatim>\<open>null\<close> throws (the message is V8's).
  A string, Number, boolean, array or function has none of these names, neither its own nor
  inherited; the members of their own prototypes (\<^verbatim>\<open>length\<close>, \<^verbatim>\<open>map\<close>, ...) are left out here
  and \<^verbatim>\<open>choices.map\<close> is modelled by \<open>Array_map\<close> below.
\<close>

definition cannot_read :: "string \<Rightarrow> string \<Rightarrow> js_error" where
  "cannot_read what k =
     TypeError (''Cannot read properties of '' @ what @ '' (reading '' @ [CHR 0x27] @ k @ [CHR 0x27] @ '')'')"

fun member :: "jsval \<Rightarrow> string \<Rightarrow> js_error + jsval" where
  "member JUndefined k = Inl (cannot_read ''undefined'' k)"
| "member JNull k = Inl (cannot_read ''null'' k)"
| "member (JObj ps) k = Inr (get_property ps k)"
| "member v k = Inr (get_property [] k)"

text \<open>\<^verbatim>\<open>v?.k\<close>\<close>

definition optional_member :: "jsval \<Rightarrow> string \<Rightarrow> jsval" where
  "optional_member v k =
     (if v = JUndefined \<or> v = JNull then JUndefined
      else (case member v k of Inl e \<Rightarrow> JUndefined | Inr x \<Rightarrow> x))"

text \<open>
  \<^verbatim>\<open>response.data.k\<close>: a stream object has none of the names the handler reads from a body.
\<close>

fun data_member :: "axios_data \<Rightarrow> string \<Rightarrow> js_error + jsval" where
  "data_member (Parsed v) k = member v k"
| "data_member (Stream s) k = Inr JUndefined"

text \<open>
  \<^verbatim>\<open>xs.map(f)\<close> as the handler calls it on \<^verbatim>\<open>response.data.choices\<close>: only an array has a
  callable \<^verbatim>\<open>map\<close>; the callback's exception ends the loop.
\<close>

fun Array_map :: "jsval \<Rightarrow> (jsval \<Rightarrow> js_error + jsval) \<Rightarrow> js_error + jsval" where
  "Array_map (JArr xs) f =
     (case mapE f xs of Inl e \<Rightarrow> Inl e | Inr ys \<Rightarrow> Inr (JArr ys))"
| "Array_map JUndefined f = Inl (cannot_read ''undefined'' ''map'')"
| "Array_map JNull f = Inl (cannot_read ''null'' ''map'')"
| "Array_map v f = Inl (TypeError ''response.data.choices.map is not a function'')"

section \<open>JSON.stringify\<close>

text \<open>
  A property whose value is \<^verbatim>\<open>undefined\<close> or a function is left out of an object and
  becomes \<^verbatim>\<open>null\<close> in an array; NaN and the infinities become \<^verbatim>\<open>null\<close>; \<open>-0\<close> prints as 0.
  \<open>None\<close> is the result \<^verbatim>\<open>undefined\<close>.
\<close>

fun JSON_stringify :: "jsval \<Rightarrow> json option"
  and JSON_elements :: "jsval list \<Rightarrow> json list"
  and JSON_properties :: "(string \<times> jsval) list \<Rightarrow> (string \<times> json) list" where
  "JSON_stringify JUndefined = None"
| "JSON_stringify (JFunction f) = None"
| "JSON_stringify JNull = Some JsonNull"
| "JSON_stringify (JBool b) = Some (JsonBool b)"
| "JSON_stringify (JNum n) =
     Some (case n of Fin r \<Rightarrow> JsonNum r | NegZero \<Rightarrow> JsonNum 0 | _ \<Rightarrow> JsonNull)"
| "JSON_stringify (JStr s) = Some (JsonStr s)"
| "JSON_stringify (JArr xs) = Some (JsonArr (JSON_elements xs))"
| "JSON_stringify (JObj ps) = Some (JsonObj (JSON_properties ps))"
| "JSON_elements [] = []"
| "JSON_elements (x # xs) =
     (case JSON_stringify x of None \<Rightarrow> JsonNull | Some j \<Rightarrow> j) # JSON_elements xs"
| "JSON_properties [] = []"
| "JSON_properties ((k, v) # ps) =
     (case JSON_stringify v of
        None \<Rightarrow> JSON_properties ps
      | Some j \<Rightarrow> (k, j) # JSON_properties ps)"

text \<open>
  \<^verbatim>\<open>JSON.stringify(error.response.data, null, 2)\<close>. A parsed body is a tree and always
  prints. An \<^verbatim>\<open>http.IncomingMessage\<close> refers to its socket and request, which refer back to
  it, and \<^verbatim>\<open>JSON.stringify\<close> throws a TypeError on a cycle.
\<close>

fun stringify_data :: "axios_data \<Rightarrow> js_error + json option" where
  "stringify_data (Parsed v) = Inr (JSON_stringify v)"
| "stringify_data (Stream s) = Inl (TypeError ''Converting circular structure to JSON'')"

text \<open>A field of a JSON object as the caller reads it.\<close>

fun json_field :: "json \<Rightarrow> string \<Rightarrow> json option" where
  "json_field (JsonObj ps) k = map_of ps k"
| "json_field j k = None"

fun json_keys :: "json \<Rightarrow> string list" where
  "json_keys (JsonObj ps) = map fst ps"
| "json_keys j = []"

text \<open>The decimal digits of an integer Number, as a template literal prints it.\<close>

function show_nat :: "nat \<Rightarrow> string" where
  "show_nat n =
     (if n < 10 then [char_of (48 + n)]
      else show_nat (n div 10) @ [char_of (48 + n mod 10)])"
  by pat_completeness auto
termination
  by (relation "measure id") auto

declare show_nat.simps [simp del]

section \<open>The response object\<close>

text \<open>
  Express's \<^verbatim>\<open>res\<close>, passed through the handler: the status (200 until changed), the headers
  set so far, the JSON document sent by \<^verbatim>\<open>res.json\<close>, the chunks written by a pipe, and
  whether the response was ended.
\<close>

record res =
  statusCode :: nat
  headers :: "(string \<times> string) list"
  body :: "json option"
  written :: "chunk list"
  ended :: bool

definition new_res :: res where
  "new_res = \<lparr>statusCode = 200, headers = [], body = None, written = [], ended = False\<rparr>"

definition setHeader :: "string \<Rightarrow> string \<Rightarrow> res \<Rightarrow> res" where
  "setHeader name v r = r\<lparr>headers := (name, v) # filter (\<lambda>p. fst p \<noteq> name) (headers r)\<rparr>"

definition res_status :: "nat \<Rightarrow> res \<Rightarrow> res" where
  "res_status code r = r\<lparr>statusCode := code\<rparr>"

text \<open>
  \<^verbatim>\<open>res.json(obj)\<close> sends \<^verbatim>\<open>JSON.stringify(obj)\<close> through \<^verbatim>\<open>res.send\<close>; the content
  type is \<^verbatim>\<open>application/json\<close> unless one was set before, with the charset added. For the
  statuses 204 and 304 \<^verbatim>\<open>res.send\<close> removes the content type and sends no body, and for
  205 it sends no body either. (\<^verbatim>\<open>Content-Length\<close> and \<^verbatim>\<open>ETag\<close>, which depend on the
  printed text, are not kept in \<open>headers\<close>.)
\<close>

definition res_json :: "jsval \<Rightarrow> res \<Rightarrow> res" where
  "res_json obj r =
     (let ct = (case map_of (headers r) ''Content-Type'' of
                  None \<Rightarrow> ''application/json''
                | Some t \<Rightarrow> t);
          r1 = setHeader ''Content-Type'' (ct @ ''; charset=utf-8'') r
      in if statusCode r = 204 \<or> statusCode r = 304 then
           r1\<lparr>headers := filter (\<lambda>p. fst p \<noteq> ''Content-Type'') (headers r1),
              body := None, ended := True\<rparr>
         else if statusCode r = 205 then r1\<lparr>body := None, ended := True\<rparr>
         else r1\<lparr>body := JSON_stringify obj, ended := True\<rparr>)"

definition res_write :: "chunk \<Rightarrow> res \<Rightarrow> res" where
  "res_write c r = r\<lparr>written := written r @ [c]\<rparr>"

definition res_end :: "res \<Rightarrow> res" where
  "res_end r = r\<lparr>ended := True\<rparr>"

text \<open>
  \<^verbatim>\<open>source.pipe(res)\<close>: each chunk of the source is written to \<^verbatim>\<open>res\<close> as it arrives;
  \<^verbatim>\<open>res\<close> is ended when the source ends, and left open when the source fails.
\<close>

fun write_all :: "chunk list \<Rightarrow> res \<Rightarrow> res" where
  "write_all [] r = r"
| "write_all (c # cs) r = write_all cs (res_write c r)"

definition pipe :: "readable \<Rightarrow> res \<Rightarrow> res" where
  "pipe s r = (let r' = write_all (chunks s) r in if errored s then r' else res_end r')"

section \<open>Startup\<close>

text \<open>
  Lines 7 to 22 and 124 to 126: the effects of running the file, in order. (The logged line
  starts with a check-mark character, left out here; \<^verbatim>\<open>PORT\<close> is a string or 3000, whose
  conversion to a string does not throw.)
\<close>

datatype event = ConsoleError string | Exit nat | Listen jsval | ConsoleLog string

definition process_env :: "(string \<rightharpoonup> string) \<Rightarrow> string \<Rightarrow> jsval" where
  "process_env env k = (case env k of None \<Rightarrow> JUndefined | Some s \<Rightarrow> JStr s)"

definition PORT :: "(string \<rightharpoonup> string) \<Rightarrow> jsval" where
  "PORT env = js_or (process_env env ''PORT'') (JNum (Fin 3000))"

definition NIM_API_BASE :: string where
  "NIM_API_BASE = ''https://integrate.api.nvidia.com/v1''"

definition NIM_API_KEY :: "(string \<rightharpoonup> string) \<Rightarrow> jsval" where
  "NIM_API_KEY env = process_env env ''NIM_API_KEY''"

definition startup :: "host \<Rightarrow> (string \<rightharpoonup> string) \<Rightarrow> event list" where
  "startup h env =
     (if \<not> truthy (NIM_API_KEY env) then
        [ConsoleError ''FATAL ERROR: NIM_API_KEY environment variable is not set.'',
         ConsoleError ''Please set it before running the server.'',
         ConsoleError ''Example: NIM_API_KEY=your_api_key_here node server.js'',
         Exit 1]
      else
        [Listen (PORT env),
         ConsoleLog (''OpenAI to NVIDIA NIM Proxy running on http://localhost:''
                     @ (case ToString h (PORT env) of Inr s \<Rightarrow> s | Inl e \<Rightarrow> []))])"

fun is_Listen :: "event \<Rightarrow> bool" where
  "is_Listen (Listen p) = True"
| "is_Listen e = False"

fun exit_code :: "event list \<Rightarrow> nat option" where
  "exit_code [] = None"
| "exit_code (Exit c # es) = Some c"
| "exit_code (e # es) = exit_code es"

fun diagnostics :: "event list \<Rightarrow> string list" where
  "diagnostics [] = []"
| "diagnostics (ConsoleError m # es) = m # diagnostics es"
| "diagnostics (e # es) = diagnostics es"

section \<open>The completions handler\<close>

definition MODEL_MAPPING :: "(string \<times> jsval) list" where
  "MODEL_MAPPING =
    [(''gpt-3.5-turbo'', JStr ''meta/llama-3.1-8b-instruct''),
     (''gpt-4'', JStr ''meta/llama-3.1-70b-instruct''),
     (''gpt-4-turbo'', JStr ''meta/llama-3.1-70b-instruct''),
     (''gpt-4o'', JStr ''deepseek-ai/deepseek-v2-chat''),
     (''claude-3-opus'', JStr ''meta/llama-3.1-405b-instruct''),
     (''claude-3-sonnet'', JStr ''meta/llama-3.1-70b-instruct''),
     (''gemini-pro'', JStr ''google/gemini-pro'')]"

text \<open>
  Line 57, \<^verbatim>\<open>MODEL_MAPPING[model] || 'meta/llama-3.1-8b-instruct'\<close>. The key is the string
  of \<^verbatim>\<open>model\<close> (its conversion can throw), the read is an ordinary property read of the
  object literal.
\<close>

definition nimModel :: "host \<Rightarrow> jsval \<Rightarrow> js_error + jsval" where
  "nimModel h model =
     and_then (ToString h model) (\<lambda>k.
       Inr (js_or (get_property MODEL_MAPPING k) (JStr ''meta/llama-3.1-8b-instruct'')))"

text \<open>
  Line 60, \<^verbatim>\<open>(max_tokens && max_tokens > 256) ? max_tokens : 4096\<close>. \<^verbatim>\<open>&&\<close> evaluates the
  comparison (which can throw) only for a truthy \<^verbatim>\<open>max_tokens\<close>; for a falsy one the
  condition is \<^verbatim>\<open>max_tokens\<close> itself.
\<close>

definition effective_max_tokens :: "host \<Rightarrow> jsval \<Rightarrow> js_error + jsval" where
  "effective_max_tokens h max_tokens =
     (if truthy max_tokens then
        and_then (js_gt h max_tokens (Fin 256)) (\<lambda>greater.
          Inr (if greater then max_tokens else JNum (Fin 4096)))
      else Inr (JNum (Fin 4096)))"

text \<open>
  The Number the literal \<^verbatim>\<open>0.7\<close> denotes: the double nearest to 7/10, which is
  \<open>3152519739159347 / 2\<^sup>5\<^sup>2\<close> (and prints as \<^verbatim>\<open>0.7\<close>).
\<close>

definition Number_0_7 :: jsnum where
  "Number_0_7 = Fin (3152519739159347 / 4503599627370496)"

text \<open>
  Lines 62 to 68, from the resolved model \<open>nm\<close> and the effective \<^verbatim>\<open>max_tokens\<close> \<open>emt\<close>.
\<close>

definition nimRequest :: "jsval \<Rightarrow> jsval \<Rightarrow> jsval \<Rightarrow> jsval \<Rightarrow> jsval \<Rightarrow> jsval" where
  "nimRequest nm messages temperature emt stream =
     JObj [(''model'', nm),
           (''messages'', messages),
           (''temperature'', js_or temperature (JNum Number_0_7)),
           (''max_tokens'', emt),
           (''stream'', js_or stream (JBool False))]"

text \<open>Lines 70 to 73; the key is the string the environment gave.\<close>

definition nimHeaders :: "string \<Rightarrow> (string \<times> string) list" where
  "nimHeaders key =
     [(''Authorization'', ''Bearer '' @ key),
      (''Content-Type'', ''application/json'')]"

text \<open>
  Lines 56 to 78: the one outbound call, when neither line 57 nor line 60 throws.
\<close>

definition outbound ::
  "host \<Rightarrow> string \<Rightarrow> jsval \<Rightarrow> jsval \<Rightarrow> jsval \<Rightarrow> jsval \<Rightarrow> jsval \<Rightarrow> js_error + axios_call" where
  "outbound h key model messages temperature max_tokens stream =
     and_then (nimModel h model) (\<lambda>nm.
     and_then (effective_max_tokens h max_tokens) (\<lambda>emt.
       Inr \<lparr>url = NIM_API_BASE @ ''/chat/completions'',
            payload = nimRequest nm messages temperature emt stream,
            call_headers = nimHeaders key,
            responseType = (if truthy stream then ''stream'' else ''json'')\<rparr>))"

text \<open>Lines 81 to 85.\<close>

definition stream_branch :: "axios_response \<Rightarrow> res \<Rightarrow> (js_error + unit) \<times> res" where
  "stream_branch resp r =
     (let r1 = setHeader ''Content-Type'' ''text/event-stream'' r;
          r2 = setHeader ''Cache-Control'' ''no-cache'' r1;
          r3 = setHeader ''Connection'' ''keep-alive'' r2
      in case data resp of
           Stream s \<Rightarrow> (Inr (), pipe s r3)
         | Parsed v \<Rightarrow>
             (case member v ''pipe'' of
                Inl e \<Rightarrow> (Inl e, r3)
              | Inr f \<Rightarrow> (Inl (TypeError ''response.data.pipe is not a function''), r3)))"

text \<open>Lines 93 to 100, the callback of \<^verbatim>\<open>choices.map\<close>.\<close>

definition reshape_choice :: "jsval \<Rightarrow> js_error + jsval" where
  "reshape_choice choice =
     and_then (member choice ''index'') (\<lambda>index.
     and_then (member choice ''message'') (\<lambda>m1.
     and_then (member m1 ''role'') (\<lambda>role.
     and_then (member choice ''message'') (\<lambda>m2.
     and_then (member m2 ''content'') (\<lambda>content.
     and_then (member choice ''finish_reason'') (\<lambda>finish_reason.
       Inr (JObj [(''index'', index),
                  (''message'', JObj [(''role'', role), (''content'', content)]),
                  (''finish_reason'', finish_reason)])))))))"

text \<open>Lines 88 to 102: the object handed to \<^verbatim>\<open>res.json\<close>.\<close>

definition completion :: "host \<Rightarrow> jsval \<Rightarrow> axios_data \<Rightarrow> js_error + jsval" where
  "completion h model d =
     and_then (data_member d ''id'') (\<lambda>id.
     and_then (data_member d ''created'') (\<lambda>created.
     and_then (data_member d ''choices'') (\<lambda>choices.
     and_then (Array_map choices reshape_choice) (\<lambda>choices'.
     and_then (data_member d ''usage'') (\<lambda>usage.
       Inr (JObj [(''id'', js_or id (JStr (''chatcmpl-'' @ show_nat (Date_now h 0)))),
                  (''object'', JStr ''chat.completion''),
                  (''created'', js_or created (JNum (Fin (of_nat (Date_now h 1 div 1000))))),
                  (''model'', model),
                  (''choices'', choices'),
                  (''usage'', usage)]))))))"

definition json_branch :: "host \<Rightarrow> jsval \<Rightarrow> axios_response \<Rightarrow> res \<Rightarrow> (js_error + unit) \<times> res" where
  "json_branch h model resp r =
     (case completion h model (data resp) of
        Inl e \<Rightarrow> (Inl e, r)
      | Inr obj \<Rightarrow> (Inr (), res_json obj r))"

text \<open>
  Line 54; \<^verbatim>\<open>req.body\<close> that is \<^verbatim>\<open>undefined\<close> or \<^verbatim>\<open>null\<close> cannot be destructured.
\<close>

definition destructure :: "jsval \<Rightarrow> js_error + (jsval \<times> jsval \<times> jsval \<times> jsval \<times> jsval)" where
  "destructure b =
     (if b = JUndefined \<or> b = JNull then
        Inl (TypeError (''Cannot destructure property 'model' of 'req.body' as it is ''
                        @ (if b = JNull then ''null'' else ''undefined'') @ ''.''))
      else
        and_then (member b ''model'') (\<lambda>model.
        and_then (member b ''messages'') (\<lambda>messages.
        and_then (member b ''temperature'') (\<lambda>temperature.
        and_then (member b ''max_tokens'') (\<lambda>max_tokens.
        and_then (member b ''stream'') (\<lambda>stream.
          Inr (model, messages, temperature, max_tokens, stream)))))))"

text \<open>
  Lines 54 to 78 up to the call: the request \<^verbatim>\<open>axios.post\<close> is called with for the body
  \<open>b\<close>, next to the two request fields the handler uses again after the call.
\<close>

definition upstream_call :: "host \<Rightarrow> string \<Rightarrow> jsval \<Rightarrow> js_error + (jsval \<times> jsval \<times> axios_call)" where
  "upstream_call h key b =
     and_then (destructure b) (\<lambda>(model, messages, temperature, max_tokens, stream).
     and_then (outbound h key model messages temperature max_tokens stream) (\<lambda>call.
       Inr (model, stream, call)))"

text \<open>Lines 53 to 104, the \<^verbatim>\<open>try\<close> block: what it throws, if anything, and \<^verbatim>\<open>res\<close> after it.\<close>

definition try_block :: "host \<Rightarrow> string \<Rightarrow> jsval \<Rightarrow> res \<Rightarrow> (js_error + unit) \<times> res" where
  "try_block h key b r =
     (case upstream_call h key b of
        Inl e \<Rightarrow> (Inl e, r)
      | Inr (model, stream, call) \<Rightarrow>
          (case axios_post h call of
             Rejected e \<Rightarrow> (Inl e, r)
           | Resolved resp \<Rightarrow>
               if truthy stream then stream_branch resp r
               else json_branch h model resp r))"

text \<open>Lines 105 to 121, the \<^verbatim>\<open>catch\<close> block.\<close>

datatype log_entry = Text string | Value jsval | Data "json option"

datatype outcome = Sent res | Unhandled js_error res

text \<open>\<^verbatim>\<open>error.response?.data?.error?.message\<close>\<close>

definition upstream_message :: "js_error \<Rightarrow> jsval" where
  "upstream_message error =
     (case response error of
        None \<Rightarrow> JUndefined
      | Some resp \<Rightarrow>
          (case data resp of
             Stream s \<Rightarrow> JUndefined
           | Parsed d \<Rightarrow> optional_member (optional_member d ''error'') ''message''))"

text \<open>\<^verbatim>\<open>error.response?.status\<close>\<close>

definition upstream_status :: "js_error \<Rightarrow> jsval" where
  "upstream_status error =
     (case response error of
        None \<Rightarrow> JUndefined
      | Some resp \<Rightarrow> JNum (Fin (of_nat (status resp))))"

text \<open>\<^verbatim>\<open>error.response?.status || 500\<close>, as the status code it is.\<close>

definition status_or_500 :: "js_error \<Rightarrow> nat" where
  "status_or_500 error =
     (case response error of
        None \<Rightarrow> 500
      | Some resp \<Rightarrow> if truthy (JNum (Fin (of_nat (status resp)))) then status resp else 500)"

text \<open>Lines 114 to 120.\<close>

definition envelope :: "js_error \<Rightarrow> jsval" where
  "envelope error =
     JObj [(''error'',
            JObj [(''message'',
                   js_or (js_or (upstream_message error) (message error))
                         (JStr ''An internal server error occurred.'')),
                  (''type'', JStr ''proxy_error''),
                  (''code'', upstream_status error)])]"

definition send_envelope :: "js_error \<Rightarrow> res \<Rightarrow> res" where
  "send_envelope error r = res_json (envelope error) (res_status (status_or_500 error) r)"

text \<open>
  The logging comes first; when \<^verbatim>\<open>JSON.stringify\<close> throws there, the exception leaves the
  handler and the handler sends nothing.
\<close>

definition catch_block :: "js_error \<Rightarrow> res \<Rightarrow> log_entry list \<times> outcome" where
  "catch_block error r =
     (let log0 = [Text ''Error proxying request to NVIDIA NIM API:''] in
      case response error of
        Some resp \<Rightarrow>
          (let log1 = log0 @ [Text (''Status: '' @ show_nat (status resp))] in
           case stringify_data (data resp) of
             Inl e \<Rightarrow> (log1, Unhandled e r)
           | Inr j \<Rightarrow> (log1 @ [Text ''Data:'', Data j], Sent (send_envelope error r)))
      | None \<Rightarrow> (log0 @ [Value (message error)], Sent (send_envelope error r)))"

text \<open>Lines 52 to 122.\<close>

definition chat_completions :: "host \<Rightarrow> string \<Rightarrow> jsval \<Rightarrow> res \<Rightarrow> log_entry list \<times> outcome" where
  "chat_completions h key b r =
     (case try_block h key b r of
        (Inr u, r') \<Rightarrow> ([], Sent r')
      | (Inl e, r') \<Rightarrow> catch_block e r')"

text \<open>
  A request is served only by a process that reached \<^verbatim>\<open>app.listen\<close>; its key is then the
  string the environment gave.
\<close>

definition serve :: "host \<Rightarrow> (string \<rightharpoonup> string) \<Rightarrow> jsval \<Rightarrow> (log_entry list \<times> outcome) option" where
  "serve h env b =
     (if list_ex is_Listen (startup h env) \<and> exit_code (startup h env) = None
      then (case env ''NIM_API_KEY'' of
              None \<Rightarrow> None
            | Some key \<Rightarrow> Some (chat_completions h key b new_res))
      else None)"

section \<open>What is sent upstream\<close>

text \<open>
  axios sends the \<^verbatim>\<open>data\<close> object of the call as \<^verbatim>\<open>JSON.stringify\<close> prints it. This is the
  JSON document the handler sends upstream for the request body \<open>b\<close> (\<open>None\<close> when it makes
  no call), and a field of that document.
\<close>

definition sent_upstream :: "host \<Rightarrow> string \<Rightarrow> jsval \<Rightarrow> json option" where
  "sent_upstream h key b =
     (case upstream_call h key b of
        Inl e \<Rightarrow> None
      | Inr (model, stream, call) \<Rightarrow> JSON_stringify (payload call))"

definition sent_field :: "host \<Rightarrow> string \<Rightarrow> jsval \<Rightarrow> string \<Rightarrow> json option" where
  "sent_field h key b k =
     (case sent_upstream h key b of None \<Rightarrow> None | Some j \<Rightarrow> json_field j k)"

text \<open>
  A JSON document as the JavaScript value it stands for. Printing that value gives the
  document back (\<open>JSON_stringify_of_json\<close> below), so a value of this form is sent verbatim.
\<close>

fun of_json :: "json \<Rightarrow> jsval"
  and of_json_elements :: "json list \<Rightarrow> jsval list"
  and of_json_properties :: "(string \<times> json) list \<Rightarrow> (string \<times> jsval) list" where
  "of_json JsonNull = JNull"
| "of_json (JsonBool b) = JBool b"
| "of_json (JsonNum x) = JNum (Fin x)"
| "of_json (JsonStr s) = JStr s"
| "of_json (JsonArr js) = JArr (of_json_elements js)"
| "of_json (JsonObj ps) = JObj (of_json_properties ps)"
| "of_json_elements [] = []"
| "of_json_elements (j # js) = of_json j # of_json_elements js"
| "of_json_properties [] = []"
| "of_json_properties ((k, j) # ps) = (k, of_json j) # of_json_properties ps"

section \<open>Example runs\<close>

text \<open>
  A host whose HTTP exchange has a fixed outcome, and a few requests and replies, for running
  the handler on concrete inputs. None of these inputs reaches the host's conversions between
  strings and Numbers, which are given arbitrary values.
\<close>

definition example_host :: "axios_outcome \<Rightarrow> host" where
  "example_host answer =
     \<lparr>StringToNumber = (\<lambda>s. NaN), NumberToString = (\<lambda>n. ''NaN''),
      Date_now = (\<lambda>i. 1700), axios = (\<lambda>c. answer)\<rparr>"

definition example_messages :: jsval where
  "example_messages = JArr [JObj [(''role'', JStr ''user''), (''content'', JStr ''hi'')]]"

definition example_request :: jsval where
  "example_request =
     JObj [(''model'', JStr ''gpt-4''),
           (''messages'', example_messages),
           (''max_tokens'', JNum (Fin 10))]"

definition example_long_request :: jsval where
  "example_long_request =
     JObj [(''model'', JStr ''unknown-model''),
           (''messages'', example_messages),
           (''temperature'', JNum (Fin (1 / 2))),
           (''max_tokens'', JNum (Fin 2000))]"

definition example_infinite_request :: jsval where
  "example_infinite_request =
     JObj [(''model'', JStr ''gpt-4''),
           (''messages'', example_messages),
           (''temperature'', JNum PosInf),
           (''max_tokens'', JNum PosInf)]"

definition example_stream_request :: jsval where
  "example_stream_request =
     JObj [(''model'', JStr ''gpt-4''),
           (''messages'', example_messages),
           (''stream'', JBool True)]"

definition example_choice :: jsval where
  "example_choice =
     JObj [(''index'', JNum (Fin 0)),
           (''message'', JObj [(''role'', JStr ''assistant''), (''content'', JStr ''hello'')]),
           (''logprobs'', JNull),
           (''finish_reason'', JStr ''stop'')]"

definition example_body :: jsval where
  "example_body =
     JObj [(''id'', JStr ''cmpl-1''),
           (''object'', JStr ''text_completion''),
           (''created'', JNum (Fin 1700000000)),
           (''model'', JStr ''meta/llama-3.1-70b-instruct''),
           (''choices'', JArr [example_choice]),
           (''usage'', JObj [(''prompt_tokens'', JNum (Fin 1)),
                             (''completion_tokens'', JNum (Fin 1)),
                             (''total_tokens'', JNum (Fin 2))])]"

definition example_completion :: upstream_reply where
  "example_completion =
     \<lparr>reply_status = 200,
      reply_stream = \<lparr>chunks = [], errored = False\<rparr>,
      reply_parsed = example_body\<rparr>"

definition example_events :: upstream_reply where
  "example_events =
     \<lparr>reply_status = 200,
      reply_stream = \<lparr>chunks = [[100, 97], [116, 97]], errored = False\<rparr>,
      reply_parsed = JStr ''data''\<rparr>"

definition connection_refused :: axios_outcome where
  "connection_refused = Failed (JStr ''connect ECONNREFUSED'') None"

definition unauthorized :: axios_outcome where
  "unauthorized =
     Failed (JStr ''Request failed with status code 401'')
       (Some \<lparr>reply_status = 401,
              reply_stream = \<lparr>chunks = [], errored = False\<rparr>,
              reply_parsed = JObj [(''error'', JObj [(''message'', JStr ''Unauthorized'')])]\<rparr>)"

definition not_modified :: axios_outcome where
  "not_modified =
     Failed (JStr ''Request failed with status code 304'')
       (Some \<lparr>reply_status = 304,
              reply_stream = \<lparr>chunks = [], errored = False\<rparr>,
              reply_parsed = JStr []\<rparr>)"

section \<open>Auxiliary facts\<close>

lemma and_then_Inr: "(and_then x f = Inr y) = (\<exists>a. x = Inr a \<and> f a = Inr y)"
  by (cases x) (simp_all add: and_then_def)




lemma JSON_stringify_of_json:
  "JSON_stringify (of_json j) = Some j"
  "JSON_elements (of_json_elements js) = js"
  "JSON_properties (of_json_properties ps) = ps"
  by (induction j and js and ps rule: of_json_of_json_elements_of_json_properties.induct) simp_all


lemma upstream_call_Inr:
  assumes "upstream_call h key b = Inr (model, stream, call)"
  shows "\<exists>messages temperature max_tokens.
      destructure b = Inr (model, messages, temperature, max_tokens, stream)
    \<and> outbound h key model messages temperature max_tokens stream = Inr call"
proof -
  from assms obtain d where d: "destructure b = Inr d"
    and rest: "(case d of (m, ms, t, mt, s) \<Rightarrow>
        and_then (outbound h key m ms t mt s) (\<lambda>c. Inr (m, s, c))) = Inr (model, stream, call)"
    unfolding upstream_call_def and_then_Inr by blast
  obtain m ms t mt s where d_eq: "d = (m, ms, t, mt, s)"
    by (cases d) auto
  from rest have "and_then (outbound h key m ms t mt s) (\<lambda>c. Inr (m, s, c)) = Inr (model, stream, call)"
    by (simp add: d_eq)
  then have "outbound h key m ms t mt s = Inr call" and "m = model" and "s = stream"
    by (auto simp: and_then_Inr)
  with d d_eq show ?thesis
    by auto
qed

lemma try_block_call:
  "upstream_call h key b = Inr (model, stream, call) \<Longrightarrow>
   try_block h key b r
     = (case axios_post h call of
          Rejected e \<Rightarrow> (Inl e, r)
        | Resolved resp \<Rightarrow>
            if truthy stream then stream_branch resp r else json_branch h model resp r)"
  by (simp add: try_block_def)

lemma sent_upstream_eq:
  "upstream_call h key b = Inr (model, stream, call) \<Longrightarrow>
   sent_upstream h key b = JSON_stringify (payload call)"
  by (simp add: sent_upstream_def)


lemma completion_Inr:
  assumes "completion h model d = Inr obj"
  shows "\<exists>i c cs cs' u. data_member d ''id'' = Inr i \<and> data_member d ''created'' = Inr c
     \<and> data_member d ''choices'' = Inr (JArr cs) \<and> mapE reshape_choice cs = Inr cs'
     \<and> data_member d ''usage'' = Inr u
     \<and> obj = JObj [(''id'', js_or i (JStr (''chatcmpl-'' @ show_nat (Date_now h 0)))),
                  (''object'', JStr ''chat.completion''),
                  (''created'', js_or c (JNum (Fin (of_nat (Date_now h 1 div 1000))))),
                  (''model'', model),
                  (''choices'', JArr cs'),
                  (''usage'', u)]"
proof -
  from assms obtain i c ch ch' u where
    i: "data_member d ''id'' = Inr i" and c: "data_member d ''created'' = Inr c"
    and ch: "data_member d ''choices'' = Inr ch" and ch': "Array_map ch reshape_choice = Inr ch'"
    and u: "data_member d ''usage'' = Inr u"
    and obj: "obj = JObj [(''id'', js_or i (JStr (''chatcmpl-'' @ show_nat (Date_now h 0)))),
                  (''object'', JStr ''chat.completion''),
                  (''created'', js_or c (JNum (Fin (of_nat (Date_now h 1 div 1000))))),
                  (''model'', model),
                  (''choices'', ch'),
                  (''usage'', u)]"
    unfolding completion_def and_then_Inr by auto
  from ch' obtain cs cs' where "ch = JArr cs" "mapE reshape_choice cs = Inr cs'" "ch' = JArr cs'"
    by (cases ch) (auto split: sum.splits)
  with i c ch u obj show ?thesis by auto
qed

lemma try_block_json:
  assumes "destructure b = Inr (model, messages, temperature, max_tokens, stream)"
    and "\<not> truthy stream"
    and "try_block h key b r = (Inr u, r')"
  shows "\<exists>call resp obj. outbound h key model messages temperature max_tokens stream = Inr call
     \<and> axios_post h call = Resolved resp
     \<and> completion h model (data resp) = Inr obj \<and> r' = res_json obj r"
proof (cases "outbound h key model messages temperature max_tokens stream")
  case (Inl e)
  with assms show ?thesis
    by (simp add: try_block_def upstream_call_def and_then_def)
next
  case (Inr call)
  with assms(1) have "upstream_call h key b = Inr (model, stream, call)"
    by (simp add: upstream_call_def and_then_def)
  with assms(2,3) Inr show ?thesis
    by (auto simp: try_block_def json_branch_def split: axios_result.splits sum.splits)
qed

lemma body_res_json:
  "body (res_json obj r)
     = (if statusCode r \<in> {204, 205, 304} then None else JSON_stringify obj)"
  by (simp add: res_json_def setHeader_def Let_def)

lemma statusCode_res_json: "statusCode (res_json obj r) = statusCode r"
  by (simp add: res_json_def setHeader_def Let_def)

lemma ended_res_json: "ended (res_json obj r)"
  by (simp add: res_json_def setHeader_def Let_def)



lemma written_write_all: "written (write_all cs r) = written r @ cs"
  by (induction cs arbitrary: r) (simp_all add: res_write_def)

lemma headers_write_all: "headers (write_all cs r) = headers r"
  by (induction cs arbitrary: r) (simp_all add: res_write_def)

lemma body_write_all: "body (write_all cs r) = body r"
  by (induction cs arbitrary: r) (simp_all add: res_write_def)

lemma statusCode_write_all: "statusCode (write_all cs r) = statusCode r"
  by (induction cs arbitrary: r) (simp_all add: res_write_def)

lemma ended_write_all: "ended (write_all cs r) = ended r"
  by (induction cs arbitrary: r) (simp_all add: res_write_def)

lemmas write_all_fields =
  written_write_all headers_write_all body_write_all statusCode_write_all ended_write_all


lemma body_send_envelope:
  "body (send_envelope e r)
     = (if status_or_500 e \<in> {204, 205, 304} then None else JSON_stringify (envelope e))"
  by (simp add: send_envelope_def body_res_json res_status_def)

lemma statusCode_send_envelope: "statusCode (send_envelope e r) = status_or_500 e"
  by (simp add: send_envelope_def statusCode_res_json res_status_def)

lemma ended_send_envelope: "ended (send_envelope e r)"
  by (simp add: send_envelope_def ended_res_json)

lemmas handler_defs =
  chat_completions_def try_block_def upstream_call_def outbound_def nimModel_def
  effective_max_tokens_def js_gt_def nimRequest_def nimHeaders_def axios_post_def as_response_def
  destructure_def and_then_def get_property_def MODEL_MAPPING_def
  Object_prototype_def json_branch_def completion_def reshape_choice_def stream_branch_def
  catch_block_def send_envelope_def envelope_def upstream_message_def upstream_status_def
  status_or_500_def optional_member_def res_json_def res_status_def setHeader_def new_res_def
  js_or_def pipe_def res_write_def res_end_def TypeError_def

lemma example_destructure:
  "destructure example_request
     = Inr (JStr ''gpt-4'', example_messages, JUndefined, JNum (Fin 10), JUndefined)"
  by (simp add: example_request_def destructure_def and_then_def get_property_def Object_prototype_def)



lemma example_try_block:
  "fst (try_block (example_host (Fulfilled example_completion)) ''nvapi-1'' example_request new_res)
     = Inr ()"
  by (simp add: example_host_def example_request_def example_completion_def example_body_def
      example_choice_def handler_defs)

lemma example_try_pair:
  "try_block (example_host (Fulfilled example_completion)) ''nvapi-1'' example_request new_res
     = (Inr (), snd (try_block (example_host (Fulfilled example_completion)) ''nvapi-1''
                       example_request new_res))"
  using example_try_block by (metis prod.collapse)


lemma new_res_status: "statusCode new_res = 200"
  by (simp add: new_res_def)

lemma example_long_call:
  "\<exists>call. upstream_call (example_host connection_refused) ''nvapi-1'' example_long_request
     = Inr (JStr ''unknown-model'', JUndefined, call)"
  by (simp add: example_long_request_def upstream_call_def outbound_def nimModel_def
      effective_max_tokens_def js_gt_def destructure_def and_then_def get_property_def
      Object_prototype_def MODEL_MAPPING_def js_or_def)

lemma example_stream_call:
  "\<exists>call. upstream_call (example_host answer) ''nvapi-1'' example_stream_request
     = Inr (JStr ''gpt-4'', JBool True, call)"
  by (simp add: example_stream_request_def upstream_call_def outbound_def nimModel_def
      effective_max_tokens_def js_gt_def destructure_def and_then_def get_property_def
      Object_prototype_def MODEL_MAPPING_def js_or_def)

lemma show_nat_401: "show_nat 401 = ''401''"
  by code_simp

section \<open>Request normalization\<close>

text \<open>
  Claim C1 as the specification states it fails for an infinite \<^verbatim>\<open>max_tokens\<close>. The body
  \<^verbatim>\<open>{"model": "gpt-4", "messages": [...], "max_tokens": 1e999}\<close> is parsed to a request whose
  \<^verbatim>\<open>max_tokens\<close> is \<^verbatim>\<open>Infinity\<close>; that is strictly greater than 256, so line 60 keeps it,
  but a JSON document cannot carry it and the request sent upstream has
  \<^verbatim>\<open>"max_tokens": null\<close>, which is not the caller's value.
\<close>

theorem infinite_max_tokens_counterexample:
  "member example_infinite_request ''max_tokens'' = Inr (JNum PosInf)
   \<and> Number_lessThan (Fin 256) PosInf = Some True
   \<and> sent_field (example_host connection_refused) ''nvapi-1'' example_infinite_request ''max_tokens''
       = Some JsonNull
   \<and> of_json JsonNull \<noteq> JNum PosInf"
  by (simp add: example_infinite_request_def example_messages_def sent_field_def sent_upstream_def
      upstream_call_def
      outbound_def nimModel_def effective_max_tokens_def js_gt_def nimRequest_def destructure_def
      and_then_def get_property_def Object_prototype_def MODEL_MAPPING_def js_or_def)

text \<open>
  Claim C1, amended. For every request body for which the handler calls the upstream (the
  \<^verbatim>\<open>try\<close> block hands exactly this call to \<^verbatim>\<open>axios.post\<close>), the
  \<^verbatim>\<open>max_tokens\<close> of the JSON document it sends is the fixed floor 4096 when the body has no
  \<^verbatim>\<open>max_tokens\<close>; when the body's \<^verbatim>\<open>max_tokens\<close> is a finite Number it is that Number
  verbatim if it is strictly greater than 256 and 4096 if it is less than or equal to 256;
  and it is 4096 for every Number that does not compare greater than 256 (minus infinity,
  minus zero and NaN included).
\<close>

theorem max_tokens_normalized:
  assumes "upstream_call h key b = Inr (model, stream, call)"
  shows "try_block h key b r
       = (case axios_post h call of
            Rejected e \<Rightarrow> (Inl e, r)
          | Resolved resp \<Rightarrow>
              if truthy stream then stream_branch resp r else json_branch h model resp r)
     \<and> sent_upstream h key b = JSON_stringify (payload call)
     \<and> (member b ''max_tokens'' = Inr JUndefined \<longrightarrow>
            sent_field h key b ''max_tokens'' = Some (JsonNum 4096))
     \<and> (\<forall>x. member b ''max_tokens'' = Inr (JNum (Fin x)) \<longrightarrow>
            sent_field h key b ''max_tokens'' = Some (JsonNum (if 256 < x then x else 4096)))
     \<and> (\<forall>n. member b ''max_tokens'' = Inr (JNum n) \<longrightarrow> Number_lessThan (Fin 256) n \<noteq> Some True \<longrightarrow>
            sent_field h key b ''max_tokens'' = Some (JsonNum 4096))"
proof -
  from upstream_call_Inr [OF assms] obtain messages temperature max_tokens where
    d: "destructure b = Inr (model, messages, temperature, max_tokens, stream)"
    and o: "outbound h key model messages temperature max_tokens stream = Inr call"
    by blast
  from o obtain nm emt where emt: "effective_max_tokens h max_tokens = Inr emt"
    and p: "payload call = nimRequest nm messages temperature emt stream"
    unfolding outbound_def and_then_Inr by auto
  have mt: "member b ''max_tokens'' = Inr max_tokens"
    using d by (auto simp: destructure_def and_then_Inr split: if_splits)
  have sent: "sent_field h key b ''max_tokens'' = JSON_stringify emt"
    using assms p
    by (simp add: sent_field_def sent_upstream_def nimRequest_def split: option.splits)
  have absent: "max_tokens = JUndefined \<Longrightarrow> emt = JNum (Fin 4096)"
    using emt by (simp add: effective_max_tokens_def)
  have num: "max_tokens = JNum n \<Longrightarrow>
      emt = (if Number_lessThan (Fin 256) n = Some True then JNum n else JNum (Fin 4096))" for n
    using emt
    by (cases n) (auto simp: effective_max_tokens_def js_gt_def and_then_def split: if_splits)
  show ?thesis
    unfolding sent mt try_block_call [OF assms] sent_upstream_eq [OF assms]
    by (auto dest: absent num)
qed

theorem max_tokens_normalized_witness:
  "member example_long_request ''max_tokens'' = Inr (JNum (Fin 2000))
   \<and> sent_field (example_host connection_refused) ''nvapi-1'' example_long_request ''max_tokens''
       = Some (JsonNum 2000)"
proof -
  from example_long_call obtain call where
    u: "upstream_call (example_host connection_refused) ''nvapi-1'' example_long_request
          = Inr (JStr ''unknown-model'', JUndefined, call)"
    by blast
  have m: "member example_long_request ''max_tokens'' = Inr (JNum (Fin 2000))"
    by (simp add: example_long_request_def get_property_def)
  from max_tokens_normalized [OF u] m show ?thesis
    by simp
qed

text \<open>
  Claim C3 as the specification states it fails for an infinite \<^verbatim>\<open>temperature\<close>: for the
  body \<^verbatim>\<open>{..., "temperature": 1e999}\<close> the caller's value is \<^verbatim>\<open>Infinity\<close>, which is truthy,
  so line 65 keeps it, and the request sent upstream has \<^verbatim>\<open>"temperature": null\<close>.
\<close>

theorem infinite_temperature_counterexample:
  "member example_infinite_request ''temperature'' = Inr (JNum PosInf)
   \<and> truthy (JNum PosInf)
   \<and> sent_field (example_host connection_refused) ''nvapi-1'' example_infinite_request ''temperature''
       = Some JsonNull
   \<and> of_json JsonNull \<noteq> JNum PosInf"
  by (simp add: example_infinite_request_def example_messages_def sent_field_def sent_upstream_def
      upstream_call_def
      outbound_def nimModel_def effective_max_tokens_def js_gt_def nimRequest_def destructure_def
      and_then_def get_property_def Object_prototype_def MODEL_MAPPING_def js_or_def)

text \<open>
  Claim C3, amended. For every request body for which the handler calls the upstream (the
  \<^verbatim>\<open>try\<close> block hands exactly this call to \<^verbatim>\<open>axios.post\<close>), the
  \<^verbatim>\<open>temperature\<close> of the JSON document it sends is the Number of the literal \<^verbatim>\<open>0.7\<close>
  (the double \<open>3152519739159347 / 2\<^sup>5\<^sup>2\<close>, within \<open>2\<^sup>-\<^sup>5\<^sup>4\<close> of 7/10) when the body's
  \<^verbatim>\<open>temperature\<close> is absent or falsy, 0 included. When it is truthy, what is sent is the
  caller's value as \<^verbatim>\<open>JSON.stringify\<close> prints it: verbatim for a finite Number other than 0
  and for every value that a JSON document stands for.
\<close>

theorem temperature_normalized:
  assumes "upstream_call h key b = Inr (model, stream, call)"
  shows "try_block h key b r
       = (case axios_post h call of
            Rejected e \<Rightarrow> (Inl e, r)
          | Resolved resp \<Rightarrow>
              if truthy stream then stream_branch resp r else json_branch h model resp r)
     \<and> sent_upstream h key b = JSON_stringify (payload call)
     \<and> (\<forall>t. member b ''temperature'' = Inr t \<longrightarrow> \<not> truthy t \<longrightarrow>
            sent_field h key b ''temperature''
              = Some (JsonNum (3152519739159347 / 4503599627370496)))
     \<and> (member b ''temperature'' = Inr JUndefined \<longrightarrow>
            sent_field h key b ''temperature''
              = Some (JsonNum (3152519739159347 / 4503599627370496)))
     \<and> (member b ''temperature'' = Inr (JNum (Fin 0)) \<longrightarrow>
            sent_field h key b ''temperature''
              = Some (JsonNum (3152519739159347 / 4503599627370496)))
     \<and> (\<forall>x. member b ''temperature'' = Inr (JNum (Fin x)) \<longrightarrow> x \<noteq> 0 \<longrightarrow>
            sent_field h key b ''temperature'' = Some (JsonNum x))
     \<and> (\<forall>j. member b ''temperature'' = Inr (of_json j) \<longrightarrow> truthy (of_json j) \<longrightarrow>
            sent_field h key b ''temperature'' = Some j)
     \<and> (\<forall>t. member b ''temperature'' = Inr t \<longrightarrow> truthy t \<longrightarrow>
            sent_field h key b ''temperature'' = JSON_stringify t)
     \<and> \<bar>3152519739159347 / 4503599627370496 - 7 / 10\<bar> < (1 / 2 ^ 54 :: rat)"
proof -
  from upstream_call_Inr [OF assms] obtain messages temperature max_tokens where
    d: "destructure b = Inr (model, messages, temperature, max_tokens, stream)"
    and o: "outbound h key model messages temperature max_tokens stream = Inr call"
    by blast
  from o obtain nm emt where
    p: "payload call = nimRequest nm messages temperature emt stream"
    unfolding outbound_def and_then_Inr by auto
  have t: "member b ''temperature'' = Inr temperature"
    using d by (auto simp: destructure_def and_then_Inr split: if_splits)
  have sent: "sent_field h key b ''temperature''
      = JSON_stringify (if truthy temperature then temperature
                        else JNum (Fin (3152519739159347 / 4503599627370496)))"
    using assms p
    by (simp add: sent_field_def sent_upstream_def nimRequest_def js_or_def Number_0_7_def
        split: option.splits)
  have near: "\<bar>3152519739159347 / 4503599627370496 - 7 / 10\<bar> < (1 / 2 ^ 54 :: rat)"
    by simp
  show ?thesis
    unfolding sent t try_block_call [OF assms] sent_upstream_eq [OF assms]
    by (auto simp: JSON_stringify_of_json near)
qed

theorem temperature_normalized_witness:
  "member example_long_request ''temperature'' = Inr (JNum (Fin (1 / 2)))
   \<and> sent_field (example_host connection_refused) ''nvapi-1'' example_long_request ''temperature''
       = Some (JsonNum (1 / 2))"
proof -
  from example_long_call obtain call where
    u: "upstream_call (example_host connection_refused) ''nvapi-1'' example_long_request
          = Inr (JStr ''unknown-model'', JUndefined, call)"
    by blast
  have m: "member example_long_request ''temperature'' = Inr (JNum (Fin (1 / 2)))"
    by (simp add: example_long_request_def get_property_def)
  from temperature_normalized [OF u] m show ?thesis
    by simp
qed

section \<open>Model resolution\<close>

text \<open>
  A requested name that is a key of the table resolves to its entry, and a name that is neither
  a key of the table nor a property name of \<^verbatim>\<open>Object.prototype\<close> resolves to the default.
\<close>

lemma nimModel_mapped:
  "map_of MODEL_MAPPING s = Some v \<Longrightarrow> nimModel h (JStr s) = Inr v"
  by (auto simp: nimModel_def and_then_def get_property_def js_or_def MODEL_MAPPING_def
      split: if_splits)

lemma nimModel_default:
  "map_of MODEL_MAPPING s = None \<Longrightarrow> map_of Object_prototype s = None \<Longrightarrow>
   nimModel h (JStr s) = Inr (JStr ''meta/llama-3.1-8b-instruct'')"
  by (simp add: nimModel_def and_then_def get_property_def js_or_def)

lemma nimModel_gpt4: "nimModel h (JStr ''gpt-4'') = Inr (JStr ''meta/llama-3.1-70b-instruct'')"
  by (simp add: nimModel_def and_then_def get_property_def js_or_def MODEL_MAPPING_def)

text \<open>
  The scenario of the specification: \<^verbatim>\<open>{model: "gpt-4", messages: [...], max_tokens: 10}\<close>.
\<close>

lemma scenario_gpt4:
  "sent_upstream h key (JObj [(''model'', JStr ''gpt-4''), (''messages'', of_json ms),
                              (''max_tokens'', JNum (Fin 10))])
     = Some (JsonObj [(''model'', JsonStr ''meta/llama-3.1-70b-instruct''),
                      (''messages'', ms),
                      (''temperature'', JsonNum (3152519739159347 / 4503599627370496)),
                      (''max_tokens'', JsonNum 4096),
                      (''stream'', JsonBool False)])"
  by (simp add: sent_upstream_def upstream_call_def outbound_def nimModel_def
      effective_max_tokens_def js_gt_def nimRequest_def destructure_def and_then_def
      get_property_def Object_prototype_def MODEL_MAPPING_def js_or_def Number_0_7_def
      JSON_stringify_of_json)

text \<open>
  Claim C2 says that a requested model that is not a key of the table resolves to the default
  \<^verbatim>\<open>'meta/llama-3.1-8b-instruct'\<close>. The handler does not do that for the requested model
  \<^verbatim>\<open>"toString"\<close>: it is no key of the table, the read \<^verbatim>\<open>MODEL_MAPPING["toString"]\<close> finds the
  inherited method, a function is truthy, so the resolved model is that function and not the
  default; \<^verbatim>\<open>JSON.stringify\<close> then leaves the \<^verbatim>\<open>model\<close> property out of the request that
  is sent upstream.
\<close>

theorem nimModel_inherited_property:
  "map_of MODEL_MAPPING ''toString'' = None
   \<and> nimModel h (JStr ''toString'') = Inr (JFunction ''toString'')
   \<and> nimModel h (JStr ''toString'') \<noteq> Inr (JStr ''meta/llama-3.1-8b-instruct'')
   \<and> (case outbound h key (JStr ''toString'') (JArr []) JUndefined JUndefined JUndefined of
        Inl e \<Rightarrow> None
      | Inr call \<Rightarrow> JSON_stringify (payload call))
       = Some (JsonObj [(''messages'', JsonArr []),
                        (''temperature'', JsonNum (3152519739159347 / 4503599627370496)),
                        (''max_tokens'', JsonNum 4096),
                        (''stream'', JsonBool False)])
   \<and> sent_upstream h key (JObj [(''model'', JStr ''toString''), (''messages'', JArr [])])
       = Some (JsonObj [(''messages'', JsonArr []),
                        (''temperature'', JsonNum (3152519739159347 / 4503599627370496)),
                        (''max_tokens'', JsonNum 4096),
                        (''stream'', JsonBool False)])"
  by (simp add: nimModel_def get_property_def js_or_def MODEL_MAPPING_def Object_prototype_def
      outbound_def nimRequest_def effective_max_tokens_def Number_0_7_def and_then_def
      sent_upstream_def upstream_call_def destructure_def)

section \<open>The non-streaming response\<close>



text \<open>
  Claim C9. When a request whose \<^verbatim>\<open>stream\<close> flag is not set succeeds, the \<^verbatim>\<open>object\<close> field of
  the JSON body is the string \<^verbatim>\<open>"chat.completion"\<close>, for every upstream body and whatever
  that body held in its own \<^verbatim>\<open>object\<close> field.
\<close>

theorem object_fixed:
  assumes "destructure b = Inr (model, messages, temperature, max_tokens, stream)"
    and "\<not> truthy stream"
    and "statusCode r = 200"
    and "try_block h key b r = (Inr u, r')"
  shows "\<exists>j. body r' = Some j \<and> json_field j ''object'' = Some (JsonStr ''chat.completion'')"
proof -
  from try_block_json [OF assms(1,2,4)] obtain resp :: axios_response and obj where
    obj: "completion h model (data resp) = Inr obj" and r': "r' = res_json obj r"
    by blast
  from completion_Inr [OF obj]
  have "json_field (the (JSON_stringify obj)) ''object'' = Some (JsonStr ''chat.completion'')"
    and "JSON_stringify obj \<noteq> None"
    by (auto split: option.splits)
  with r' assms(3) show ?thesis
    by (auto simp: body_res_json)
qed

theorem object_fixed_witness:
  "data_member (Parsed example_body) ''object'' = Inr (JStr ''text_completion'')
   \<and> (\<exists>r' j. try_block (example_host (Fulfilled example_completion)) ''nvapi-1'' example_request new_res
            = (Inr (), r')
        \<and> body r' = Some j \<and> json_field j ''object'' = Some (JsonStr ''chat.completion''))"
proof -
  have s: "\<not> truthy JUndefined" by simp
  have o: "data_member (Parsed example_body) ''object'' = Inr (JStr ''text_completion'')"
    by (simp add: example_body_def get_property_def)
  from object_fixed [OF example_destructure s new_res_status example_try_pair] example_try_pair o
  show ?thesis
    by blast
qed



section \<open>The streaming response\<close>

text \<open>
  Claim C6. When the \<^verbatim>\<open>stream\<close> flag of the request body is set and the upstream exchange of
  the handler's call is fulfilled, the call asked for \<^verbatim>\<open>responseType: 'stream'\<close>, so the
  reply's body is handed over as a stream; the handler answers with the headers
  \<^verbatim>\<open>Content-Type: text/event-stream\<close>, \<^verbatim>\<open>Cache-Control: no-cache\<close> and
  \<^verbatim>\<open>Connection: keep-alive\<close>, and what it writes to the caller is exactly the chunks of the
  upstream stream, in their order and unchanged (so the bytes are the upstream's bytes); it
  sends no JSON body and leaves the status as it was.
\<close>

theorem stream_relayed:
  assumes "member b ''stream'' = Inr flag" and "truthy flag"
    and "upstream_call h key b = Inr (model, stream, call)"
    and "axios h call = Fulfilled rp"
  shows "\<exists>r'. chat_completions h key b r = ([], Sent r')
     \<and> responseType call = ''stream''
     \<and> map_of (headers r') ''Content-Type'' = Some ''text/event-stream''
     \<and> map_of (headers r') ''Cache-Control'' = Some ''no-cache''
     \<and> map_of (headers r') ''Connection'' = Some ''keep-alive''
     \<and> written r' = written r @ chunks (reply_stream rp)
     \<and> concat (written r') = concat (written r) @ concat (chunks (reply_stream rp))
     \<and> body r' = body r
     \<and> statusCode r' = statusCode r
     \<and> ended r' = (if errored (reply_stream rp) then ended r else True)"
proof -
  from upstream_call_Inr [OF assms(3)] obtain messages temperature max_tokens where
    d: "destructure b = Inr (model, messages, temperature, max_tokens, stream)"
    and o: "outbound h key model messages temperature max_tokens stream = Inr call"
    by blast
  from d have "member b ''stream'' = Inr stream"
    by (auto simp: destructure_def and_then_Inr split: if_splits)
  with assms(1,2) have s: "truthy stream"
    by simp
  from o s have rt: "responseType call = ''stream''"
    unfolding outbound_def and_then_Inr by auto
  with assms(4) have "axios_post h call
      = Resolved \<lparr>status = reply_status rp, data = Stream (reply_stream rp)\<rparr>"
    by (simp add: axios_post_def as_response_def)
  with assms(3) s rt show ?thesis
    by (simp add: chat_completions_def try_block_def stream_branch_def pipe_def Let_def
        write_all_fields setHeader_def res_end_def)
qed

theorem stream_relayed_witness:
  "\<exists>r'. chat_completions (example_host (Fulfilled example_events)) ''nvapi-1''
           example_stream_request new_res = ([], Sent r')
     \<and> map_of (headers r') ''Content-Type'' = Some ''text/event-stream''
     \<and> written r' = [[100, 97], [116, 97]]"
proof -
  from example_stream_call obtain call where
    u: "upstream_call (example_host (Fulfilled example_events)) ''nvapi-1'' example_stream_request
          = Inr (JStr ''gpt-4'', JBool True, call)"
    by blast
  have m: "member example_stream_request ''stream'' = Inr (JBool True)"
    by (simp add: example_stream_request_def get_property_def)
  have s: "truthy (JBool True)" by simp
  have a: "axios (example_host (Fulfilled example_events)) call = Fulfilled example_events"
    by (simp add: example_host_def)
  from stream_relayed [OF m s u a, of new_res] show ?thesis
    by (auto simp: new_res_def example_events_def)
qed

section \<open>Startup behaviour\<close>

text \<open>
  Claim C7. When the environment has no \<^verbatim>\<open>NIM_API_KEY\<close>, the process exits with code 1 after
  writing its diagnostic lines, never reaches \<^verbatim>\<open>app.listen\<close>, and serves no request.
\<close>

theorem missing_key_exits:
  "env ''NIM_API_KEY'' = None \<Longrightarrow>
     exit_code (startup h env) = Some 1
   \<and> diagnostics (startup h env) \<noteq> []
   \<and> \<not> list_ex is_Listen (startup h env)
   \<and> serve h env b = None"
  by (simp add: startup_def NIM_API_KEY_def process_env_def serve_def)

theorem missing_key_exits_witness:
  "Map.empty ''NIM_API_KEY'' = None
   \<and> exit_code (startup (example_host connection_refused) Map.empty) = Some 1
   \<and> serve (example_host connection_refused) Map.empty example_request = None"
  using missing_key_exits [of Map.empty "example_host connection_refused" example_request]
  by simp

text \<open>With a key the process listens and the handler answers.\<close>

lemma key_present_serves:
  "env ''NIM_API_KEY'' = Some k \<Longrightarrow> k \<noteq> [] \<Longrightarrow>
     serve h env b = Some (chat_completions h k b new_res)"
  by (simp add: startup_def NIM_API_KEY_def process_env_def serve_def)

section \<open>The error envelope\<close>



text \<open>
  An upstream that answers 304: the status is passed on and Express sends it without a body.
\<close>

lemma not_modified_empty:
  "snd (chat_completions (example_host not_modified) ''nvapi-1'' example_request new_res)
     = Sent \<lparr>statusCode = 304, headers = [], body = None, written = [], ended = True\<rparr>"
  by (simp add: example_host_def example_request_def example_messages_def not_modified_def
      handler_defs stringify_data.simps)

text \<open>
  Claim C5 says that every failure the handler catches is answered with one error envelope.
  The handler does not do that when the \<^verbatim>\<open>stream\<close> flag of the request is set and the
  upstream answers with an error status (401 here): the call asked for
  \<^verbatim>\<open>responseType: 'stream'\<close>, so \<^verbatim>\<open>error.response.data\<close> is the stream object, and
  \<^verbatim>\<open>JSON.stringify(error.response.data, null, 2)\<close> on line 109 throws inside the \<^verbatim>\<open>catch\<close>
  block, before line 114 is reached. The exception leaves the handler and no envelope is sent.
\<close>

theorem stream_failure_no_envelope:
  "chat_completions (example_host unauthorized) ''nvapi-1'' example_stream_request new_res
     = ([Text ''Error proxying request to NVIDIA NIM API:'', Text ''Status: 401''],
        Unhandled (TypeError ''Converting circular structure to JSON'') new_res)"
  by (simp add: example_host_def example_stream_request_def example_messages_def unauthorized_def
      handler_defs show_nat_401)

text \<open>The same for every request with the flag set whose failure carries an upstream reply.\<close>

lemma stream_failure_unhandled:
  assumes "member b ''stream'' = Inr flag" and "truthy flag"
    and "upstream_call h key b = Inr (model, stream, call)"
    and "axios h call = Failed msg (Some rp)"
  shows "snd (chat_completions h key b r)
     = Unhandled (TypeError ''Converting circular structure to JSON'') r"
proof -
  from upstream_call_Inr [OF assms(3)] obtain messages temperature max_tokens where
    d: "destructure b = Inr (model, messages, temperature, max_tokens, stream)"
    and o: "outbound h key model messages temperature max_tokens stream = Inr call"
    by blast
  from d have "member b ''stream'' = Inr stream"
    by (auto simp: destructure_def and_then_Inr split: if_splits)
  with assms(1,2) have "truthy stream"
    by simp
  with o have "responseType call = ''stream''"
    unfolding outbound_def and_then_Inr by auto
  with assms(3,4) show ?thesis
    by (simp add: chat_completions_def try_block_def axios_post_def as_response_def
        catch_block_def Let_def)
qed

text \<open>
  For a failure whose upstream reply, if any, was read whole (the flag not set), and a status
  other than 204, 205 and 304, the envelope is sent: its message is the first truthy one of
  the upstream's error message, the failure's message and the fixed string.
\<close>

lemma envelope_sent:
  assumes "try_block h key b r = (Inl e, r1)"
    and "\<forall>resp s. response e = Some resp \<longrightarrow> data resp \<noteq> Stream s"
    and "status_or_500 e \<notin> {204, 205, 304}"
  shows "\<exists>lg r' j env. chat_completions h key b r = (lg, Sent r')
     \<and> ended r'
     \<and> statusCode r' =
         (case response e of
            None \<Rightarrow> 500
          | Some resp \<Rightarrow> if status resp = 0 then 500 else status resp)
     \<and> body r' = Some j \<and> json_keys j = [''error''] \<and> json_field j ''error'' = Some env
     \<and> set (json_keys env) \<subseteq> {''message'', ''type'', ''code''}
     \<and> json_field env ''message'' =
         JSON_stringify
           (if truthy (upstream_message e) then upstream_message e
            else if truthy (message e) then message e
            else JStr ''An internal server error occurred.'')
     \<and> json_field env ''type'' = Some (JsonStr ''proxy_error'')
     \<and> json_field env ''code'' = JSON_stringify (upstream_status e)"
proof -
  from assms(2) have "\<exists>lg. catch_block e r1 = (lg, Sent (send_envelope e r1))"
    by (cases "response e")
       (auto simp: catch_block_def Let_def split: sum.splits axios_data.splits
             elim!: stringify_data.elims)
  with assms(1) obtain lg where lg: "chat_completions h key b r = (lg, Sent (send_envelope e r1))"
    by (auto simp: chat_completions_def)
  have st: "status_or_500 e =
         (case response e of
            None \<Rightarrow> 500
          | Some resp \<Rightarrow> if status resp = 0 then 500 else status resp)"
    by (simp add: status_or_500_def split: option.splits)
  have env: "\<exists>j env. JSON_stringify (envelope e) = Some j \<and> json_keys j = [''error'']
     \<and> json_field j ''error'' = Some env
     \<and> set (json_keys env) \<subseteq> {''message'', ''type'', ''code''}
     \<and> json_field env ''message'' =
         JSON_stringify
           (if truthy (upstream_message e) then upstream_message e
            else if truthy (message e) then message e
            else JStr ''An internal server error occurred.'')
     \<and> json_field env ''type'' = Some (JsonStr ''proxy_error'')
     \<and> json_field env ''code'' = JSON_stringify (upstream_status e)"
    by (simp add: envelope_def js_or_def split: option.splits)
  from lg st [symmetric] env assms(3) show ?thesis
    by (auto simp: body_send_envelope statusCode_send_envelope ended_send_envelope)
qed

end
